theory Spec2Isabelle
  imports Main "HOL-Library.Log_Nat"
begin

section \<open>Python values used by the progression engine\<close>

text \<open>
  The handlers of \<^verbatim>\<open>src/backend/stratos.py\<close> either return a value or raise.
  \<open>NotFound\<close> is \<^verbatim>\<open>HTTPException(status_code=404)\<close>; \<open>ZeroDivisionError\<close> is the
  Python exception of that name, which no handler catches.
\<close>

datatype error = NotFound | ZeroDivisionError

subsection \<open>Floating point: \<^verbatim>\<open>int((correct / total) * 100)\<close>\<close>

text \<open>
  \<^verbatim>\<open>correct / total\<close> on two Python ints is true division: the exact quotient rounded to
  the nearest IEEE 754 binary64 number, ties to even. The product with \<^verbatim>\<open>100\<close> is rounded
  the same way, and \<^verbatim>\<open>int(...)\<close> truncates towards zero. A binary64 number is modelled by
  the rational it denotes. \<open>binary64 x\<close> rounds a rational to 53 significant bits: with
  \<open>2 ^ e \<le> x < 2 ^ (e + 1)\<close> the representable numbers around \<open>x\<close> are the multiples of
  \<open>2 ^ (e - 52)\<close>. The exponent range of binary64 is not modelled; the operands here lie
  between \<open>1 / len(content)\<close> and \<open>100\<close>, far inside it. Only non-negative operands
  occur.
\<close>

definition pow2 :: "int \<Rightarrow> rat" where
  "pow2 e = (if 0 \<le> e then 2 ^ nat e else 1 / 2 ^ nat (- e))"

definition round_half_even :: "rat \<Rightarrow> int" where
  "round_half_even x =
     (let m = \<lfloor>x\<rfloor>; r = x - of_int m
      in if r < 1 / 2 then m
         else if 1 / 2 < r then m + 1
         else if even m then m else m + 1)"

definition float_exponent :: "rat \<Rightarrow> int" where
  "float_exponent x =
     (let (p, q) = quotient_of x; d = bitlen p - bitlen q
      in if pow2 d \<le> x then d else d - 1)"

definition binary64 :: "rat \<Rightarrow> rat" where
  "binary64 x =
     (if x \<le> 0 then 0
      else let u = pow2 (float_exponent x - 52)
           in of_int (round_half_even (x / u)) * u)"

definition true_div :: "int \<Rightarrow> int \<Rightarrow> error + rat" where
  "true_div a b =
     (if b = 0 then Inl ZeroDivisionError else Inr (binary64 (of_int a / of_int b)))"

definition float_mul :: "rat \<Rightarrow> rat \<Rightarrow> rat" where
  "float_mul x y = binary64 (x * y)"

definition int_of_float :: "rat \<Rightarrow> int" where
  "int_of_float x = (if 0 \<le> x then \<lfloor>x\<rfloor> else \<lceil>x\<rceil>)"

text \<open>\<^verbatim>\<open>score_pct = int((correct / total) * 100)\<close> (line 749).\<close>

definition score_percent :: "int \<Rightarrow> int \<Rightarrow> error + int" where
  "score_percent correct_n total_n =
     (case true_div correct_n total_n of
        Inl e \<Rightarrow> Inl e
      | Inr q \<Rightarrow> Inr (int_of_float (float_mul q 100)))"

subsection \<open>Strings: \<^verbatim>\<open>s.lower().strip()\<close>\<close>

text \<open>
  A Python \<^verbatim>\<open>str\<close> is a list of code points of type \<open>'c\<close>. \<^verbatim>\<open>str.lower\<close> and the
  whitespace test behind \<^verbatim>\<open>str.strip\<close> follow the Unicode tables, which are not part of
  the repository: they are parameters, so every result below holds for whatever the
  interpreter's tables are.
\<close>

record 'c str_ops =
  lower :: "'c list \<Rightarrow> 'c list"
  isspace :: "'c \<Rightarrow> bool"

definition strip :: "'c str_ops \<Rightarrow> 'c list \<Rightarrow> 'c list" where
  "strip S s = rev (dropWhile (isspace S) (rev (dropWhile (isspace S) s)))"

text \<open>The ASCII instance of the two tables, for the worked examples.\<close>

definition ascii_lower :: "char \<Rightarrow> char" where
  "ascii_lower c =
     (case map_of (zip ''ABCDEFGHIJKLMNOPQRSTUVWXYZ'' ''abcdefghijklmnopqrstuvwxyz'') c of
        None \<Rightarrow> c
      | Some l \<Rightarrow> l)"

definition ascii :: "char str_ops" where
  "ascii = \<lparr>lower = map ascii_lower,
            isspace = (\<lambda>c. c \<in> set [CHR '' '', CHR 0x09, CHR 0x0A, CHR 0x0B, CHR 0x0C, CHR 0x0D,
                                     CHR 0x1C, CHR 0x1D, CHR 0x1E, CHR 0x1F])\<rparr>"

section \<open>Data model\<close>

text \<open>
  Catalogue entries (\<^verbatim>\<open>SAMPLE_LESSONS\<close>): of a content item only \<^verbatim>\<open>correct_answer\<close> is read
  by the engine; of a lesson \<^verbatim>\<open>id\<close>, \<^verbatim>\<open>language\<close>, \<^verbatim>\<open>order\<close>, \<^verbatim>\<open>xp_reward\<close> and
  \<^verbatim>\<open>content\<close>. Field names carry a prefix where two dictionaries share a key.
\<close>

record 'c lesson_content =
  correct_answer :: "'c list"

record 'c lesson =
  l_id :: string
  l_language :: string
  l_order :: int
  l_xp_reward :: int
  l_content :: "'c lesson_content list"

text \<open>
  A document of the \<^verbatim>\<open>users\<close> collection, as \<^verbatim>\<open>register\<close> creates it (lines 597-611).
  Every document has every field, so the defaults of \<^verbatim>\<open>user.get(key, default)\<close> are never
  taken. \<^verbatim>\<open>last_practice_date\<close> holds \<^verbatim>\<open>None\<close> or the ISO text of a calendar date; the date
  is modelled by its day number.
\<close>

record user =
  xp :: int
  level :: int
  streak :: int
  hearts :: int
  current_language :: "string option"
  languages_learning :: "string list"
  achievements :: "string list"
  last_practice_date :: "int option"

text \<open>A document of the \<^verbatim>\<open>lesson_progress\<close> collection (lines 800-807).\<close>

record lesson_progress =
  p_user_id :: string
  p_lesson_id :: string
  p_language :: string
  p_completed :: bool
  p_score :: int
  p_completed_at :: int

text \<open>
  The database: \<^verbatim>\<open>users\<close> is keyed by the unique \<^verbatim>\<open>id\<close> of its documents;
  \<^verbatim>\<open>lesson_progress\<close> is the list of its documents in insertion order.
\<close>

record db =
  users :: "string \<rightharpoonup> user"
  progress :: "lesson_progress list"

text \<open>\<^verbatim>\<open>QuizResult\<close> (lines 140-146).\<close>

record quiz_result =
  correct :: int
  total_items :: int
  xp_earned :: int
  passed :: bool
  new_level :: "int option"
  streak_bonus :: int

text \<open>One entry of the list \<^verbatim>\<open>get_lessons\<close> returns (lines 699-708).\<close>

record lesson_data =
  d_id :: string
  d_order :: int
  d_xp_reward :: int
  d_completed :: bool
  d_score :: int
  d_locked :: bool

section \<open>Achievements\<close>

text \<open>\<^verbatim>\<open>check_and_award_achievement\<close> (lines 869-878).\<close>

definition check_and_award_achievement :: "db \<Rightarrow> string \<Rightarrow> string \<Rightarrow> db" where
  "check_and_award_achievement d user_id achievement_id =
     (case users d user_id of
        None \<Rightarrow> d
      | Some u \<Rightarrow>
          if achievement_id \<notin> set (achievements u)
          then d\<lparr>users := (users d)(user_id \<mapsto> u\<lparr>achievements := achievements u @ [achievement_id]\<rparr>)\<rparr>
          else d)"

text \<open>One \<^verbatim>\<open>if cond: await check_and_award_achievement(user_id, a)\<close> statement.\<close>

definition award_if :: "bool \<Rightarrow> string \<Rightarrow> string \<Rightarrow> db \<Rightarrow> db" where
  "award_if cond user_id achievement_id d =
     (if cond then check_and_award_achievement d user_id achievement_id else d)"

text \<open>
  \<^verbatim>\<open>count_documents({'user_id': user_id, 'completed': True})\<close> (line 883).
\<close>

definition count_completed :: "db \<Rightarrow> string \<Rightarrow> int" where
  "count_completed d user_id =
     int (length (filter (\<lambda>p. p_user_id p = user_id \<and> p_completed p) (progress d)))"

text \<open>\<^verbatim>\<open>check_lesson_achievements\<close> (lines 880-911).\<close>

definition check_lesson_achievements :: "db \<Rightarrow> string \<Rightarrow> int \<Rightarrow> int \<Rightarrow> int \<Rightarrow> bool \<Rightarrow> db" where
  "check_lesson_achievements d user_id streak_n xp_n level_n perfect =
     (let progress_count = count_completed d user_id;
          d = award_if (progress_count = 1) user_id ''first-lesson'' d;
          d = award_if (3 \<le> streak_n) user_id ''streak-3'' d;
          d = award_if (7 \<le> streak_n) user_id ''streak-7'' d;
          d = award_if (30 \<le> streak_n) user_id ''streak-30'' d;
          d = award_if (100 \<le> xp_n) user_id ''xp-100'' d;
          d = award_if (500 \<le> xp_n) user_id ''xp-500'' d;
          d = award_if (1000 \<le> xp_n) user_id ''xp-1000'' d;
          d = award_if perfect user_id ''perfect-lesson'' d;
          d = award_if (5 \<le> level_n) user_id ''level-5'' d;
          d = award_if (10 \<le> level_n) user_id ''level-10'' d
      in d)"

text \<open>The ids of \<^verbatim>\<open>ACHIEVEMENTS\<close> (lines 571-583) and \<^verbatim>\<open>get_achievements\<close> (lines 852-867).\<close>

definition ACHIEVEMENTS :: "string list" where
  "ACHIEVEMENTS = [''first-lesson'', ''streak-3'', ''streak-7'', ''streak-30'', ''xp-100'',
     ''xp-500'', ''xp-1000'', ''perfect-lesson'', ''multi-language'', ''level-5'', ''level-10'']"

definition get_achievements :: "user \<Rightarrow> (string \<times> bool) list" where
  "get_achievements u = map (\<lambda>a. (a, a \<in> set (achievements u))) ACHIEVEMENTS"

section \<open>Languages\<close>

text \<open>The codes of \<^verbatim>\<open>LANGUAGES\<close> (lines 202-213).\<close>

definition LANGUAGES :: "string list" where
  "LANGUAGES = [''es'', ''fr'', ''de'', ''ja'', ''zh'', ''it'', ''pt'', ''ko'', ''ru'', ''ar'']"

text \<open>
  \<^verbatim>\<open>db.users.update_one({'id': uid}, {'$set': ...})\<close>: the document with that id is
  changed; without one nothing happens.
\<close>

definition update_user :: "db \<Rightarrow> string \<Rightarrow> (user \<Rightarrow> user) \<Rightarrow> db" where
  "update_user d uid f =
     (case users d uid of
        None \<Rightarrow> d
      | Some u \<Rightarrow> d\<lparr>users := (users d)(uid \<mapsto> f u)\<rparr>)"

text \<open>
  \<^verbatim>\<open>start_language\<close> (lines 660-680). \<open>uid\<close> and \<open>u\<close> are the id and the
  document of the authenticated user, which \<^verbatim>\<open>get_current_user\<close> read before the call.
\<close>

definition start_language :: "db \<Rightarrow> string \<Rightarrow> user \<Rightarrow> string \<Rightarrow> db \<times> (error + string)" where
  "start_language d uid u code =
     (if code \<notin> set LANGUAGES then (d, Inl NotFound)
      else
        let languages = (if code \<notin> set (languages_learning u)
                         then languages_learning u @ [code]
                         else languages_learning u);
            d1 = update_user d uid
                   (\<lambda>v. v\<lparr>current_language := Some code, languages_learning := languages\<rparr>);
            d2 = award_if (3 \<le> length languages) uid ''multi-language'' d1
        in (d2, Inr code))"

text \<open>\<^verbatim>\<open>register\<close> (lines 587-618), for a fresh id, and \<^verbatim>\<open>refill_hearts\<close> (lines 921-926).\<close>

definition new_user :: user where
  "new_user = \<lparr>xp = 0, level = 1, streak = 0, hearts = 5, current_language = None,
     languages_learning = [], achievements = [], last_practice_date = None\<rparr>"

definition register :: "db \<Rightarrow> string \<Rightarrow> db" where
  "register d uid = d\<lparr>users := (users d)(uid \<mapsto> new_user)\<rparr>"

definition refill_hearts :: "db \<Rightarrow> string \<Rightarrow> db" where
  "refill_hearts d uid = update_user d uid (\<lambda>v. v\<lparr>hearts := 5\<rparr>)"

section \<open>Lesson list and unlock state\<close>

text \<open>
  \<^verbatim>\<open>SAMPLE_LESSONS\<close> is a dictionary from language code to lesson list;
  \<^verbatim>\<open>SAMPLE_LESSONS.get(language, [])\<close> reads it.
\<close>

definition lessons_of :: "(string \<rightharpoonup> 'c lesson list) \<Rightarrow> string \<Rightarrow> 'c lesson list" where
  "lessons_of sample_lessons language_code =
     (case sample_lessons language_code of None \<Rightarrow> [] | Some ls \<Rightarrow> ls)"

text \<open>
  \<^verbatim>\<open>find({'user_id': ..., 'language': ...}).to_list(100)\<close> (lines 690-693) and the
  dictionary \<^verbatim>\<open>{p['lesson_id']: p for p in progress_docs}\<close> (line 695), in which a later
  document replaces an earlier one with the same key.
\<close>

definition find_progress :: "db \<Rightarrow> string \<Rightarrow> string \<Rightarrow> lesson_progress list" where
  "find_progress d uid language_code =
     take 100 (filter (\<lambda>p. p_user_id p = uid \<and> p_language p = language_code) (progress d))"

definition progress_map :: "lesson_progress list \<Rightarrow> (string \<rightharpoonup> lesson_progress)" where
  "progress_map progress_docs = fold (\<lambda>p m. m(p_lesson_id p \<mapsto> p)) progress_docs Map.empty"

text \<open>
  \<^verbatim>\<open>progress_map.get(lid, {}).get('completed', False)\<close> and
  \<^verbatim>\<open>progress_map.get(lid, {}).get('score', 0)\<close>.
\<close>

definition get_completed :: "(string \<rightharpoonup> lesson_progress) \<Rightarrow> string \<Rightarrow> bool" where
  "get_completed pm lid = (case pm lid of None \<Rightarrow> False | Some p \<Rightarrow> p_completed p)"

definition get_score :: "(string \<rightharpoonup> lesson_progress) \<Rightarrow> string \<Rightarrow> int" where
  "get_score pm lid = (case pm lid of None \<Rightarrow> 0 | Some p \<Rightarrow> p_score p)"

text \<open>The body of the loop over \<^verbatim>\<open>lessons\<close> (lines 698-717).\<close>

definition lesson_row ::
  "'c lesson list \<Rightarrow> (string \<rightharpoonup> lesson_progress) \<Rightarrow> 'c lesson \<Rightarrow> lesson_data" where
  "lesson_row lessons pm lesson =
     (let lesson_data = \<lparr>d_id = l_id lesson, d_order = l_order lesson,
                          d_xp_reward = l_xp_reward lesson,
                          d_completed = get_completed pm (l_id lesson),
                          d_score = get_score pm (l_id lesson),
                          d_locked = False\<rparr>
      in if l_order lesson = 1 then lesson_data\<lparr>d_locked := False\<rparr>
         else if l_order lesson > 1 then
           (let prev_ids = map l_id (filter (\<lambda>l. l_order l = l_order lesson - 1) lessons)
            in lesson_data\<lparr>d_locked := \<not> list_ex (\<lambda>pid. get_completed pm pid) prev_ids\<rparr>)
         else lesson_data)"

definition lesson_rows :: "'c lesson list \<Rightarrow> lesson_progress list \<Rightarrow> lesson_data list" where
  "lesson_rows lessons progress_docs =
     map (lesson_row lessons (progress_map progress_docs)) lessons"

text \<open>\<^verbatim>\<open>get_lessons\<close> (lines 684-719).\<close>

definition get_lessons ::
  "(string \<rightharpoonup> 'c lesson list) \<Rightarrow> db \<Rightarrow> string \<Rightarrow> string \<Rightarrow> lesson_data list" where
  "get_lessons sample_lessons d uid language_code =
     lesson_rows (lessons_of sample_lessons language_code) (find_progress d uid language_code)"

section \<open>Grading a submission\<close>

text \<open>
  The scoring loop (lines 741-746) over \<^verbatim>\<open>enumerate(submission.answers)\<close>; the last
  argument is the running value of \<^verbatim>\<open>correct\<close>.
\<close>

fun count_correct ::
  "'c str_ops \<Rightarrow> 'c lesson_content list \<Rightarrow> (nat \<times> 'c list) list \<Rightarrow> int \<Rightarrow> int" where
  "count_correct S content_items [] correct_n = correct_n"
| "count_correct S content_items ((i, answer) # rest) correct_n =
     count_correct S content_items rest
       (if i < length content_items
        then (let expected = strip S (lower S (correct_answer (content_items ! i)))
              in if strip S (lower S answer) = expected then correct_n + 1 else correct_n)
        else correct_n)"

text \<open>
  The streak update (lines 754-772). \<open>today\<close> is the day number of \<^verbatim>\<open>now.date()\<close>.
  The result is \<^verbatim>\<open>(new_streak, streak_bonus)\<close>.
\<close>

definition update_streak :: "int option \<Rightarrow> int \<Rightarrow> int \<Rightarrow> int \<times> int" where
  "update_streak last_practice today old_streak =
     (case last_practice of
        Some last_date \<Rightarrow>
          (let days_diff = today - last_date
           in if days_diff = 1
              then (let new_streak = old_streak + 1 in (new_streak, min (new_streak * 2) 20))
              else if days_diff > 1 then (1, 0)
              else (old_streak, 0))
      | None \<Rightarrow> (1, 0))"

text \<open>
  \<^verbatim>\<open>update_one(..., upsert=True)\<close> on \<^verbatim>\<open>lesson_progress\<close> (lines 798-809): the first
  document with the user id and lesson id of \<open>new\<close> gets all six fields of \<open>new\<close>; if
  there is none, \<open>new\<close> is inserted.
\<close>

fun upsert_progress :: "lesson_progress \<Rightarrow> lesson_progress list \<Rightarrow> lesson_progress list" where
  "upsert_progress new [] = [new]"
| "upsert_progress new (p # ps) =
     (if p_user_id p = p_user_id new \<and> p_lesson_id p = p_lesson_id new
      then new # ps
      else p # upsert_progress new ps)"

text \<open>
  The clock: \<open>now\<close> is \<^verbatim>\<open>datetime.now(timezone.utc)\<close> in seconds since the epoch,
  \<open>date_of now\<close> the day number of \<^verbatim>\<open>now.date()\<close>.
\<close>

definition date_of :: "int \<Rightarrow> int" where
  "date_of now = now div 86400"

text \<open>
  \<^verbatim>\<open>complete_lesson\<close> (lines 731-821). \<open>uid\<close> and \<open>u\<close> are the id and the
  document of the authenticated user. The result is the database after the call and the
  response; every \<^verbatim>\<open>raise\<close> happens before the first write.
\<close>

definition complete_lesson ::
  "'c str_ops \<Rightarrow> (string \<rightharpoonup> 'c lesson list) \<Rightarrow> db \<Rightarrow> string \<Rightarrow> user \<Rightarrow> string \<Rightarrow> string \<Rightarrow>
     'c list list \<Rightarrow> int \<Rightarrow> db \<times> (error + quiz_result)" where
  "complete_lesson S sample_lessons d uid u language_code lesson_id answers now =
     (let lessons = lessons_of sample_lessons language_code
      in case find (\<lambda>l. l_id l = lesson_id) lessons of
           None \<Rightarrow> (d, Inl NotFound)
         | Some lesson \<Rightarrow>
            (let correct_n = count_correct S (l_content lesson) (enumerate 0 answers) 0;
                 total_n = int (length (l_content lesson))
             in case score_percent correct_n total_n of
                  Inl e \<Rightarrow> (d, Inl e)
                | Inr score_pct \<Rightarrow>
                   (let passed_b = (70 \<le> score_pct);
                        base_xp = (if passed_b then l_xp_reward lesson
                                   else l_xp_reward lesson div 2);
                        today = date_of now;
                        (new_streak, bonus) = update_streak (last_practice_date u) today (streak u);
                        total_xp = base_xp + bonus;
                        new_total_xp = xp u + total_xp;
                        new_level_n = new_total_xp div 100 + 1;
                        old_level = level u;
                        update_data =
                          (\<lambda>v. let w = v\<lparr>xp := new_total_xp, level := new_level_n,
                                           streak := new_streak,
                                           last_practice_date := Some today\<rparr>
                                in if \<not> passed_b \<and> hearts u > 0
                                   then w\<lparr>hearts := hearts u - 1\<rparr> else w);
                        d1 = update_user d uid update_data;
                        d2 = d1\<lparr>progress := upsert_progress
                               \<lparr>p_user_id = uid, p_lesson_id = lesson_id,
                                p_language = language_code, p_completed = passed_b,
                                p_score = score_pct, p_completed_at = now\<rparr> (progress d1)\<rparr>;
                        d3 = check_lesson_achievements d2 uid new_streak new_total_xp
                               new_level_n (score_pct = 100)
                    in (d3, Inr \<lparr>correct = correct_n, total_items = total_n,
                                 xp_earned = total_xp, passed = passed_b,
                                 new_level = (if new_level_n > old_level then Some new_level_n
                                              else None),
                                 streak_bonus = bonus\<rparr>))))"

section \<open>Runs of the service\<close>

text \<open>
  One request changes the database. Each handler runs after \<^verbatim>\<open>get_current_user\<close> has
  read the caller's document from \<^verbatim>\<open>users\<close>.
\<close>

inductive step ::
  "'c str_ops \<Rightarrow> (string \<rightharpoonup> 'c lesson list) \<Rightarrow> db \<Rightarrow> db \<Rightarrow> bool"
  for S :: "'c str_ops" and sample_lessons :: "string \<rightharpoonup> 'c lesson list" where
  step_register: "users d uid = None \<Longrightarrow> step S sample_lessons d (register d uid)"
| step_start: "users d uid = Some u \<Longrightarrow>
     step S sample_lessons d (fst (start_language d uid u code))"
| step_complete: "users d uid = Some u \<Longrightarrow>
     step S sample_lessons d
       (fst (complete_lesson S sample_lessons d uid u language_code lesson_id answers now))"
| step_refill: "users d uid = Some u \<Longrightarrow> step S sample_lessons d (refill_hearts d uid)"

definition empty_db :: db where
  "empty_db = \<lparr>users = Map.empty, progress = []\<rparr>"

definition reachable :: "'c str_ops \<Rightarrow> (string \<rightharpoonup> 'c lesson list) \<Rightarrow> db \<Rightarrow> bool" where
  "reachable S sample_lessons d = (step S sample_lessons)\<^sup>*\<^sup>* empty_db d"

text \<open>
  A sequence of completion requests, each by an authenticated user:
  \<open>(uid, language, lesson_id, answers, now)\<close>.
\<close>

type_synonym 'c completion = "string \<times> string \<times> string \<times> 'c list list \<times> int"

fun run_completions ::
  "'c str_ops \<Rightarrow> (string \<rightharpoonup> 'c lesson list) \<Rightarrow> db \<Rightarrow> 'c completion list \<Rightarrow> db" where
  "run_completions S sample_lessons d [] = d"
| "run_completions S sample_lessons d ((uid, language_code, lesson_id, answers, now) # rest) =
     run_completions S sample_lessons
       (case users d uid of
          None \<Rightarrow> d
        | Some u \<Rightarrow> fst (complete_lesson S sample_lessons d uid u language_code lesson_id answers now))
       rest"

section \<open>Auxiliary notions for the proofs\<close>

text \<open>
  What a chain of awards does to one user document, and the values
  \<^verbatim>\<open>complete_lesson\<close> computes between scoring and its response, each under a name.
\<close>

definition add_achievement :: "string \<Rightarrow> user \<Rightarrow> user" where
  "add_achievement a u =
     (if a \<in> set (achievements u) then u else u\<lparr>achievements := achievements u @ [a]\<rparr>)"

definition add_if :: "bool \<Rightarrow> string \<Rightarrow> user \<Rightarrow> user" where
  "add_if c a u = (if c then add_achievement a u else u)"

definition lesson_awards :: "int \<Rightarrow> int \<Rightarrow> int \<Rightarrow> int \<Rightarrow> bool \<Rightarrow> user \<Rightarrow> user" where
  "lesson_awards n streak_n xp_n level_n perfect u =
     add_if (10 \<le> level_n) ''level-10''
      (add_if (5 \<le> level_n) ''level-5''
      (add_if perfect ''perfect-lesson''
      (add_if (1000 \<le> xp_n) ''xp-1000''
      (add_if (500 \<le> xp_n) ''xp-500''
      (add_if (100 \<le> xp_n) ''xp-100''
      (add_if (30 \<le> streak_n) ''streak-30''
      (add_if (7 \<le> streak_n) ''streak-7''
      (add_if (3 \<le> streak_n) ''streak-3''
      (add_if (n = 1) ''first-lesson'' u)))))))))"

definition new_streak_of :: "user \<Rightarrow> int \<Rightarrow> int" where
  "new_streak_of u now = fst (update_streak (last_practice_date u) (date_of now) (streak u))"

definition bonus_of :: "user \<Rightarrow> int \<Rightarrow> int" where
  "bonus_of u now = snd (update_streak (last_practice_date u) (date_of now) (streak u))"

definition earned_of :: "user \<Rightarrow> int \<Rightarrow> int \<Rightarrow> int \<Rightarrow> int" where
  "earned_of u reward score_pct now =
     (if 70 \<le> score_pct then reward else reward div 2) + bonus_of u now"

definition graded_user :: "user \<Rightarrow> int \<Rightarrow> int \<Rightarrow> int \<Rightarrow> user \<Rightarrow> user" where
  "graded_user u reward score_pct now v =
     (let w = v\<lparr>xp := xp u + earned_of u reward score_pct now,
                  level := (xp u + earned_of u reward score_pct now) div 100 + 1,
                  streak := new_streak_of u now,
                  last_practice_date := Some (date_of now)\<rparr>
      in if \<not> 70 \<le> score_pct \<and> hearts u > 0 then w\<lparr>hearts := hearts u - 1\<rparr> else w)"

definition graded_doc :: "string \<Rightarrow> string \<Rightarrow> string \<Rightarrow> int \<Rightarrow> int \<Rightarrow> lesson_progress" where
  "graded_doc uid language_code lesson_id score_pct now =
     \<lparr>p_user_id = uid, p_lesson_id = lesson_id, p_language = language_code,
      p_completed = (70 \<le> score_pct), p_score = score_pct, p_completed_at = now\<rparr>"

definition graded_db :: "db \<Rightarrow> string \<Rightarrow> user \<Rightarrow> string \<Rightarrow> string \<Rightarrow> int \<Rightarrow> int \<Rightarrow> int \<Rightarrow> db" where
  "graded_db d uid u language_code lesson_id reward score_pct now =
     check_lesson_achievements
       ((update_user d uid (graded_user u reward score_pct now))
          \<lparr>progress := upsert_progress (graded_doc uid language_code lesson_id score_pct now)
                        (progress d)\<rparr>)
       uid (new_streak_of u now) (xp u + earned_of u reward score_pct now)
       ((xp u + earned_of u reward score_pct now) div 100 + 1) (score_pct = 100)"

definition graded_result :: "user \<Rightarrow> int \<Rightarrow> int \<Rightarrow> int \<Rightarrow> int \<Rightarrow> int \<Rightarrow> quiz_result" where
  "graded_result u correct_n total_n reward score_pct now =
     \<lparr>correct = correct_n, total_items = total_n,
      xp_earned = earned_of u reward score_pct now, passed = (70 \<le> score_pct),
      new_level = (if (xp u + earned_of u reward score_pct now) div 100 + 1 > level u
                   then Some ((xp u + earned_of u reward score_pct now) div 100 + 1) else None),
      streak_bonus = bonus_of u now\<rparr>"


section \<open>A small catalogue and database for the worked examples\<close>

text \<open>
  Two lessons in the shape of \<^verbatim>\<open>es-basics-1\<close> and \<^verbatim>\<open>es-basics-2\<close> (lines 217-244), with
  ASCII answers, and a database with one registered user.
\<close>

definition ex_lesson1 :: "char lesson" where
  "ex_lesson1 = \<lparr>l_id = ''es-basics-1'', l_language = ''es'', l_order = 1, l_xp_reward = 15,
     l_content = [\<lparr>correct_answer = ''hola''\<rparr>, \<lparr>correct_answer = ''Good morning''\<rparr>,
                  \<lparr>correct_answer = ''gracias''\<rparr>, \<lparr>correct_answer = ''Adios''\<rparr>]\<rparr>"

definition ex_lesson2 :: "char lesson" where
  "ex_lesson2 = \<lparr>l_id = ''es-basics-2'', l_language = ''es'', l_order = 2, l_xp_reward = 15,
     l_content = [\<lparr>correct_answer = ''uno dos tres''\<rparr>, \<lparr>correct_answer = ''Five''\<rparr>,
                  \<lparr>correct_answer = ''siete''\<rparr>, \<lparr>correct_answer = ''Nueve''\<rparr>]\<rparr>"

definition ex_lessons :: "string \<rightharpoonup> char lesson list" where
  "ex_lessons = [''es'' \<mapsto> [ex_lesson1, ex_lesson2]]"

definition ex_db :: db where
  "ex_db = register empty_db ''u1''"

definition ex_answers :: "string list" where
  "ex_answers = ['' Hola'', ''good morning '', ''GRACIAS'', ''adios'']"

definition ex_user90 :: user where
  "ex_user90 = new_user\<lparr>xp := 90\<rparr>"

definition ex_db90 :: db where
  "ex_db90 = \<lparr>users = [''u1'' \<mapsto> ex_user90], progress = []\<rparr>"

definition ex_user_streak2 :: user where
  "ex_user_streak2 = new_user\<lparr>xp := 30, streak := 2, last_practice_date := Some 99\<rparr>"

definition ex_db_streak2 :: db where
  "ex_db_streak2 = \<lparr>users = [''u1'' \<mapsto> ex_user_streak2], progress = []\<rparr>"

definition ex_db_passed :: db where
  "ex_db_passed = fst (complete_lesson ascii ex_lessons ex_db ''u1'' new_user ''es''
                         ''es-basics-1'' ex_answers 8640000)"

definition ex_user_passed :: user where
  "ex_user_passed = \<lparr>xp = 15, level = 1, streak = 1, hearts = 5, current_language = None,
     languages_learning = [], achievements = [''first-lesson'', ''perfect-lesson''],
     last_practice_date = Some 100\<rparr>"

definition ex_db_failed :: db where
  "ex_db_failed = fst (complete_lesson ascii ex_lessons ex_db_passed ''u1'' ex_user_passed ''es''
                         ''es-basics-1'' [] 8640000)"

section \<open>Basic facts about the handlers\<close>

lemma add_achievement_fields [simp]:
  "xp (add_achievement a u) = xp u"
  "level (add_achievement a u) = level u"
  "streak (add_achievement a u) = streak u"
  "hearts (add_achievement a u) = hearts u"
  "current_language (add_achievement a u) = current_language u"
  "languages_learning (add_achievement a u) = languages_learning u"
  "last_practice_date (add_achievement a u) = last_practice_date u"
  by (simp_all add: add_achievement_def)

lemma set_add_achievement [simp]:
  "set (achievements (add_achievement a u)) = insert a (set (achievements u))"
  by (auto simp: add_achievement_def)

lemma distinct_add_achievement [simp]:
  "distinct (achievements (add_achievement a u)) = distinct (achievements u)"
  by (simp add: add_achievement_def)

lemma add_if_fields [simp]:
  "xp (add_if c a u) = xp u"
  "level (add_if c a u) = level u"
  "streak (add_if c a u) = streak u"
  "hearts (add_if c a u) = hearts u"
  "current_language (add_if c a u) = current_language u"
  "languages_learning (add_if c a u) = languages_learning u"
  "last_practice_date (add_if c a u) = last_practice_date u"
  by (simp_all add: add_if_def)

lemma set_add_if [simp]:
  "set (achievements (add_if c a u)) = (if c then insert a (set (achievements u)) else set (achievements u))"
  by (simp add: add_if_def)

lemma distinct_add_if [simp]:
  "distinct (achievements (add_if c a u)) = distinct (achievements u)"
  by (simp add: add_if_def)

lemma users_update_user:
  "users (update_user d uid f) v = (if v = uid then map_option f (users d uid) else users d v)"
  by (simp add: update_user_def split: option.split)

lemma progress_update_user [simp]: "progress (update_user d uid f) = progress d"
  by (simp add: update_user_def split: option.split)

lemma users_check_and_award:
  "users (check_and_award_achievement d uid a) v =
     (if v = uid then map_option (add_achievement a) (users d uid) else users d v)"
  by (simp add: check_and_award_achievement_def add_achievement_def split: option.split)

lemma progress_check_and_award [simp]:
  "progress (check_and_award_achievement d uid a) = progress d"
  by (simp add: check_and_award_achievement_def split: option.split)

lemma users_award_if:
  "users (award_if c uid a d) v =
     (if v = uid then map_option (add_if c a) (users d uid) else users d v)"
  by (cases "users d uid") (simp_all add: award_if_def users_check_and_award add_if_def)

lemma progress_award_if [simp]: "progress (award_if c uid a d) = progress d"
  by (simp add: award_if_def)

lemma count_completed_award_if [simp]:
  "count_completed (award_if c uid a d) v = count_completed d v"
  by (simp add: count_completed_def)

lemma users_check_lesson_achievements:
  "users (check_lesson_achievements d uid s x l p) v =
     (if v = uid then map_option (lesson_awards (count_completed d uid) s x l p) (users d uid)
      else users d v)"
  by (cases "users d uid")
     (simp_all add: check_lesson_achievements_def Let_def users_award_if lesson_awards_def)

lemma progress_check_lesson_achievements [simp]:
  "progress (check_lesson_achievements d uid s x l p) = progress d"
  by (simp add: check_lesson_achievements_def Let_def)

lemma lesson_awards_fields [simp]:
  "xp (lesson_awards n s x l p u) = xp u"
  "level (lesson_awards n s x l p u) = level u"
  "streak (lesson_awards n s x l p u) = streak u"
  "hearts (lesson_awards n s x l p u) = hearts u"
  "current_language (lesson_awards n s x l p u) = current_language u"
  "languages_learning (lesson_awards n s x l p u) = languages_learning u"
  "last_practice_date (lesson_awards n s x l p u) = last_practice_date u"
  by (simp_all add: lesson_awards_def)

lemma mem_add_if:
  "b \<in> set (achievements (add_if c a u)) \<longleftrightarrow> b \<in> set (achievements u) \<or> (c \<and> b = a)"
  by (auto simp: add_if_def)

lemma mem_lesson_awards:
  "a \<in> set (achievements (lesson_awards n s x l p u)) \<longleftrightarrow>
     a \<in> set (achievements u) \<or>
     (n = 1 \<and> a = ''first-lesson'') \<or> (3 \<le> s \<and> a = ''streak-3'') \<or>
     (7 \<le> s \<and> a = ''streak-7'') \<or> (30 \<le> s \<and> a = ''streak-30'') \<or>
     (100 \<le> x \<and> a = ''xp-100'') \<or> (500 \<le> x \<and> a = ''xp-500'') \<or>
     (1000 \<le> x \<and> a = ''xp-1000'') \<or> (p \<and> a = ''perfect-lesson'') \<or>
     (5 \<le> l \<and> a = ''level-5'') \<or> (10 \<le> l \<and> a = ''level-10'')"
  by (simp only: lesson_awards_def mem_add_if disj_assoc)

lemma distinct_lesson_awards [simp]:
  "distinct (achievements (lesson_awards n s x l p u)) = distinct (achievements u)"
  by (simp add: lesson_awards_def)



lemma complete_lesson_graded:
  assumes "find (\<lambda>l. l_id l = lesson_id) (lessons_of sample_lessons language_code) = Some lesson"
    and "score_percent (count_correct S (l_content lesson) (enumerate 0 answers) 0)
           (int (length (l_content lesson))) = Inr score_pct"
  shows "complete_lesson S sample_lessons d uid u language_code lesson_id answers now =
           (graded_db d uid u language_code lesson_id (l_xp_reward lesson) score_pct now,
            Inr (graded_result u (count_correct S (l_content lesson) (enumerate 0 answers) 0)
                   (int (length (l_content lesson))) (l_xp_reward lesson) score_pct now))"
  using assms
  by (simp add: complete_lesson_def Let_def case_prod_beta graded_db_def graded_result_def
        graded_user_def [abs_def] graded_doc_def earned_of_def bonus_of_def new_streak_of_def)

lemma complete_lesson_InrD:
  assumes "complete_lesson S sample_lessons d uid u language_code lesson_id answers now = (d', Inr r)"
  shows "\<exists>lesson score_pct.
           find (\<lambda>l. l_id l = lesson_id) (lessons_of sample_lessons language_code) = Some lesson \<and>
           score_percent (count_correct S (l_content lesson) (enumerate 0 answers) 0)
             (int (length (l_content lesson))) = Inr score_pct \<and>
           d' = graded_db d uid u language_code lesson_id (l_xp_reward lesson) score_pct now \<and>
           r = graded_result u (count_correct S (l_content lesson) (enumerate 0 answers) 0)
                 (int (length (l_content lesson))) (l_xp_reward lesson) score_pct now"
proof (cases "find (\<lambda>l. l_id l = lesson_id) (lessons_of sample_lessons language_code)")
  case None
  with assms show ?thesis by (simp add: complete_lesson_def)
next
  case (Some lesson)
  show ?thesis
  proof (cases "score_percent (count_correct S (l_content lesson) (enumerate 0 answers) 0)
             (int (length (l_content lesson)))")
    case (Inl e)
    with Some assms show ?thesis by (simp add: complete_lesson_def Let_def)
  next
    case (Inr score_pct)
    from complete_lesson_graded [OF Some Inr] assms Some Inr show ?thesis by simp
  qed
qed

lemma users_graded_db:
  "users (graded_db d uid u language_code lesson_id reward score_pct now) v =
     (if v = uid
      then map_option
             (\<lambda>w. lesson_awards
                    (count_completed
                       (d\<lparr>progress := upsert_progress
                            (graded_doc uid language_code lesson_id score_pct now) (progress d)\<rparr>) uid)
                    (new_streak_of u now) (xp u + earned_of u reward score_pct now)
                    ((xp u + earned_of u reward score_pct now) div 100 + 1) (score_pct = 100)
                    (graded_user u reward score_pct now w))
             (users d uid)
      else users d v)"
  by (cases "users d uid")
     (simp_all add: graded_db_def users_check_lesson_achievements users_update_user
        count_completed_def)

lemma progress_graded_db:
  "progress (graded_db d uid u language_code lesson_id reward score_pct now) =
     upsert_progress (graded_doc uid language_code lesson_id score_pct now) (progress d)"
  by (simp add: graded_db_def)

lemma graded_user_fields [simp]:
  "xp (graded_user u reward score_pct now v) = xp u + earned_of u reward score_pct now"
  "level (graded_user u reward score_pct now v) = (xp u + earned_of u reward score_pct now) div 100 + 1"
  "streak (graded_user u reward score_pct now v) = new_streak_of u now"
  "last_practice_date (graded_user u reward score_pct now v) = Some (date_of now)"
  "achievements (graded_user u reward score_pct now v) = achievements v"
  "languages_learning (graded_user u reward score_pct now v) = languages_learning v"
  "current_language (graded_user u reward score_pct now v) = current_language v"
  by (simp_all add: graded_user_def Let_def)


lemma update_streak_cases:
  "update_streak lp today s =
     (case lp of None \<Rightarrow> (1, 0)
      | Some last_date \<Rightarrow>
          if today - last_date = 1 then (s + 1, min ((s + 1) * 2) 20)
          else if today - last_date > 1 then (1, 0) else (s, 0))"
  by (simp add: update_streak_def Let_def split: option.split)

lemma graded_result_fields [simp]:
  "correct (graded_result u c t reward score_pct now) = c"
  "total_items (graded_result u c t reward score_pct now) = t"
  "xp_earned (graded_result u c t reward score_pct now) = earned_of u reward score_pct now"
  "passed (graded_result u c t reward score_pct now) = (70 \<le> score_pct)"
  "streak_bonus (graded_result u c t reward score_pct now) = bonus_of u now"
  by (simp_all add: graded_result_def)

lemma find_upsert_progress:
  "p_user_id new = uid \<Longrightarrow> p_lesson_id new = lid \<Longrightarrow>
   find (\<lambda>p. p_user_id p = uid \<and> p_lesson_id p = lid) (upsert_progress new ps) = Some new"
  by (induction ps) auto

lemma stored_record_of_attempt:
  assumes "complete_lesson S sample_lessons d uid u language_code lesson_id answers now = (d', Inr r)"
  shows "\<exists>p. find (\<lambda>p. p_user_id p = uid \<and> p_lesson_id p = lesson_id) (progress d') = Some p \<and>
           p_completed p = passed r \<and> score_percent (correct r) (total_items r) = Inr (p_score p)"
proof -
  from complete_lesson_InrD [OF assms] obtain lesson score_pct where
    found: "find (\<lambda>l. l_id l = lesson_id) (lessons_of sample_lessons language_code) = Some lesson" and
    sc: "score_percent (count_correct S (l_content lesson) (enumerate 0 answers) 0)
             (int (length (l_content lesson))) = Inr score_pct" and
    d': "d' = graded_db d uid u language_code lesson_id (l_xp_reward lesson) score_pct now" and
    r: "r = graded_result u (count_correct S (l_content lesson) (enumerate 0 answers) 0)
                 (int (length (l_content lesson))) (l_xp_reward lesson) score_pct now"
    by blast
  show ?thesis
    by (simp add: d' r progress_graded_db find_upsert_progress graded_doc_def sc)
qed

lemma fst_complete_lesson_cases:
  "fst (complete_lesson S sample_lessons d uid u language_code lesson_id answers now) = d \<or>
   (\<exists>lesson score_pct.
      find (\<lambda>l. l_id l = lesson_id) (lessons_of sample_lessons language_code) = Some lesson \<and>
      fst (complete_lesson S sample_lessons d uid u language_code lesson_id answers now) =
        graded_db d uid u language_code lesson_id (l_xp_reward lesson) score_pct now)"
proof (cases "find (\<lambda>l. l_id l = lesson_id) (lessons_of sample_lessons language_code)")
  case None
  then show ?thesis by (simp add: complete_lesson_def)
next
  case (Some lesson)
  show ?thesis
  proof (cases "score_percent (count_correct S (l_content lesson) (enumerate 0 answers) 0)
             (int (length (l_content lesson)))")
    case (Inl e)
    with Some show ?thesis by (simp add: complete_lesson_def Let_def)
  next
    case (Inr score_pct)
    have "fst (complete_lesson S sample_lessons d uid u language_code lesson_id answers now) =
        graded_db d uid u language_code lesson_id (l_xp_reward lesson) score_pct now"
      by (simp add: complete_lesson_graded [OF Some Inr])
    with Some show ?thesis by blast
  qed
qed

lemma bonus_of_nonneg: "0 \<le> streak u \<Longrightarrow> 0 \<le> bonus_of u now"
  by (simp add: bonus_of_def update_streak_cases split: option.split)

lemma new_streak_of_nonneg: "0 \<le> streak u \<Longrightarrow> 0 \<le> new_streak_of u now"
  by (simp add: new_streak_of_def update_streak_cases split: option.split)

lemma earned_of_nonneg: "0 \<le> streak u \<Longrightarrow> 0 \<le> reward \<Longrightarrow> 0 \<le> earned_of u reward score_pct now"
  using bonus_of_nonneg [of u now] by (simp add: earned_of_def)

lemma complete_lesson_xp_mono:
  assumes rewards: "\<forall>lang. \<forall>l \<in> set (lessons_of sample_lessons lang). 0 \<le> l_xp_reward l"
    and u: "users d uid = Some u" "0 \<le> streak u"
    and v: "users d uid' = Some v"
  shows "\<exists>u1. users (fst (complete_lesson S sample_lessons d uid' v language_code lesson_id answers now)) uid = Some u1 \<and>
           xp u \<le> xp u1 \<and> 0 \<le> streak u1"
proof -
  let ?d1 = "fst (complete_lesson S sample_lessons d uid' v language_code lesson_id answers now)"
  from fst_complete_lesson_cases [of S sample_lessons d uid' v language_code lesson_id answers now]
  consider "?d1 = d" |
    lesson score_pct where
      "find (\<lambda>l. l_id l = lesson_id) (lessons_of sample_lessons language_code) = Some lesson"
      "?d1 = graded_db d uid' v language_code lesson_id (l_xp_reward lesson) score_pct now"
    by blast
  then show ?thesis
  proof cases
    case 1
    with u show ?thesis by simp
  next
    case 2
    from 2(1) have "lesson \<in> set (lessons_of sample_lessons language_code)"
      by (auto simp: find_Some_iff)
    with rewards have rw: "0 \<le> l_xp_reward lesson" by blast
    show ?thesis
    proof (cases "uid' = uid")
      case True
      with u v have "v = u" by simp
      with 2(2) True have
        "fst (complete_lesson S sample_lessons d uid' v language_code lesson_id answers now) =
           graded_db d uid u language_code lesson_id (l_xp_reward lesson) score_pct now"
        by simp
      with u rw show ?thesis
        by (simp add: users_graded_db earned_of_nonneg new_streak_of_nonneg)
    next
      case False
      with u show ?thesis by (simp add: 2(2) users_graded_db)
    qed
  qed
qed

lemma run_completions_xp_mono:
  assumes rewards: "\<forall>lang. \<forall>l \<in> set (lessons_of sample_lessons lang). 0 \<le> l_xp_reward l"
  shows "users d uid = Some u \<Longrightarrow> 0 \<le> streak u \<Longrightarrow>
         \<exists>u1. users (run_completions S sample_lessons d reqs) uid = Some u1 \<and>
           xp u \<le> xp u1 \<and> 0 \<le> streak u1"
proof (induction reqs arbitrary: d u)
  case Nil
  then show ?case by simp
next
  case (Cons req reqs)
  obtain uid' language_code lesson_id answers now where
    req: "req = (uid', language_code, lesson_id, answers, now)"
    by (cases req) auto
  let ?d1 = "case users d uid' of None \<Rightarrow> d
      | Some v \<Rightarrow> fst (complete_lesson S sample_lessons d uid' v language_code lesson_id answers now)"
  have "\<exists>u1. users ?d1 uid = Some u1 \<and> xp u \<le> xp u1 \<and> 0 \<le> streak u1"
  proof (cases "users d uid'")
    case None
    with Cons.prems show ?thesis by simp
  next
    case (Some v)
    from complete_lesson_xp_mono [OF rewards Cons.prems Some] Some show ?thesis by simp
  qed
  then obtain u1 where u1: "users ?d1 uid = Some u1" "xp u \<le> xp u1" "0 \<le> streak u1" by blast
  from Cons.IH [OF u1(1) u1(3)] obtain u2 where
    "users (run_completions S sample_lessons ?d1 reqs) uid = Some u2" "xp u1 \<le> xp u2" "0 \<le> streak u2"
    by blast
  with u1(2) show ?case by (auto simp: req)
qed

lemma run_completions_append:
  "run_completions S sample_lessons d (reqs1 @ reqs2) =
     run_completions S sample_lessons (run_completions S sample_lessons d reqs1) reqs2"
  by (induction reqs1 arbitrary: d) auto


lemma lessons_of_ex_lessons:
  "lessons_of ex_lessons lang = (if lang = ''es'' then [ex_lesson1, ex_lesson2] else [])"
  by (simp add: lessons_of_def ex_lessons_def)

section \<open>Unknown language or lesson\<close>

text \<open>
  Claim C9. A call of \<^verbatim>\<open>complete_lesson\<close> with a language that is not a key of
  \<^verbatim>\<open>SAMPLE_LESSONS\<close>, or with a lesson id that no lesson of that language has, answers
  404 "Lesson not found" and leaves the database as it was: every user document (xp,
  level, streak, hearts, last practice date, achievements) and every completion record.
\<close>

theorem complete_lesson_not_found: 
  assumes "sample_lessons language_code = None \<or> lesson_id \<notin> l_id ` set (lessons_of sample_lessons language_code)"
  shows "complete_lesson S sample_lessons d uid u language_code lesson_id answers now = (d, Inl NotFound)"
proof -
  have "find (\<lambda>l. l_id l = lesson_id) (lessons_of sample_lessons language_code) = None"
    using assms by (auto simp: find_None_iff lessons_of_def)
  then show ?thesis by (simp add: complete_lesson_def)
qed


theorem complete_lesson_not_found_witness:
  "ex_lessons ''xx'' = None \<and>
   complete_lesson ascii ex_lessons ex_db ''u1'' new_user ''xx'' ''es-basics-1'' ex_answers 8640000 =
     (ex_db, Inl NotFound)"
proof -
  have h: "ex_lessons ''xx'' = None \<or>
      ''es-basics-1'' \<notin> l_id ` set (lessons_of ex_lessons ''xx'')"
    by (simp add: ex_lessons_def)
  have "ex_lessons ''xx'' = None" by (simp add: ex_lessons_def)
  with complete_lesson_not_found [OF h] show ?thesis by simp
qed

section \<open>Level\<close>

text \<open>
  Claim C3. After a graded completion the stored document of the user satisfies
  \<open>level = xp div 100 + 1\<close>, and the response carries \<^verbatim>\<open>new_level\<close>, set to the stored
  level, exactly when that level is greater than the level the user had before the call;
  otherwise \<^verbatim>\<open>new_level\<close> is \<^verbatim>\<open>None\<close>.
\<close>

theorem complete_lesson_level:
  assumes "users d uid = Some u"
    and "complete_lesson S sample_lessons d uid u language_code lesson_id answers now = (d', Inr r)"
  shows "\<exists>u'. users d' uid = Some u' \<and> level u' = xp u' div 100 + 1 \<and>
           new_level r = (if level u' > level u then Some (level u') else None)"
proof -
  from complete_lesson_InrD [OF assms(2)] obtain lesson score_pct where
    found: "find (\<lambda>l. l_id l = lesson_id) (lessons_of sample_lessons language_code) = Some lesson" and
    d': "d' = graded_db d uid u language_code lesson_id (l_xp_reward lesson) score_pct now" and
    r: "r = graded_result u (count_correct S (l_content lesson) (enumerate 0 answers) 0)
                 (int (length (l_content lesson))) (l_xp_reward lesson) score_pct now"
    by blast
  show ?thesis
    by (simp add: d' r users_graded_db assms(1) graded_result_def)
qed

theorem complete_lesson_level_witness:
  "\<exists>u'. users (fst (complete_lesson ascii ex_lessons ex_db90 ''u1'' ex_user90 ''es''
                       ''es-basics-1'' ex_answers 8640000)) ''u1'' = Some u' \<and>
         level u' = xp u' div 100 + 1 \<and>
         new_level \<lparr>correct = 4, total_items = 4, xp_earned = 15, passed = True,
                     new_level = Some 2, streak_bonus = 0\<rparr> =
           (if level u' > level ex_user90 then Some (level u') else None)"
proof -
  have h1: "users ex_db90 ''u1'' = Some ex_user90" by (simp add: ex_db90_def)
  have h2: "snd (complete_lesson ascii ex_lessons ex_db90 ''u1'' ex_user90 ''es''
                   ''es-basics-1'' ex_answers 8640000) =
            Inr \<lparr>correct = 4, total_items = 4, xp_earned = 15, passed = True,
                  new_level = Some 2, streak_bonus = 0\<rparr>"
    by code_simp
  have h3: "complete_lesson ascii ex_lessons ex_db90 ''u1'' ex_user90 ''es''
                   ''es-basics-1'' ex_answers 8640000 =
            (fst (complete_lesson ascii ex_lessons ex_db90 ''u1'' ex_user90 ''es''
                   ''es-basics-1'' ex_answers 8640000),
             Inr \<lparr>correct = 4, total_items = 4, xp_earned = 15, passed = True,
                  new_level = Some 2, streak_bonus = 0\<rparr>)"
    using h2 by (simp add: prod_eq_iff)
  show ?thesis by (rule complete_lesson_level [OF h1 h3])
qed

section \<open>Streak\<close>

text \<open>
  Claim C2. In a graded completion the new streak and the streak bonus depend only on the
  number of whole days between the stored \<^verbatim>\<open>last_practice_date\<close> and the current date
  (and on the streak before). Without a stored date the streak becomes 1 and the bonus is 0.
  With a difference of 0 days the streak stays and the bonus is 0. With a difference of
  exactly 1 day the streak grows by 1 and the bonus is the minimum of twice the new streak
  and 20. With a difference of more than 1 day the streak becomes 1 and the bonus is 0.
  The bonus differs from 0 only when the difference is exactly 1.
\<close>

theorem complete_lesson_streak:
  assumes "users d uid = Some u"
    and "complete_lesson S sample_lessons d uid u language_code lesson_id answers now = (d', Inr r)"
  shows "\<exists>u'. users d' uid = Some u' \<and>
     (case last_practice_date u of
        None \<Rightarrow> streak u' = 1 \<and> streak_bonus r = 0
      | Some last_date \<Rightarrow>
          (date_of now - last_date = 0 \<longrightarrow> streak u' = streak u \<and> streak_bonus r = 0) \<and>
          (date_of now - last_date = 1 \<longrightarrow>
             streak u' = streak u + 1 \<and> streak_bonus r = min (streak u' * 2) 20) \<and>
          (date_of now - last_date > 1 \<longrightarrow> streak u' = 1 \<and> streak_bonus r = 0)) \<and>
     (streak_bonus r \<noteq> 0 \<longrightarrow>
        (\<exists>last_date. last_practice_date u = Some last_date \<and> date_of now - last_date = 1))"
proof -
  from complete_lesson_InrD [OF assms(2)] obtain lesson score_pct where
    found: "find (\<lambda>l. l_id l = lesson_id) (lessons_of sample_lessons language_code) = Some lesson" and
    d': "d' = graded_db d uid u language_code lesson_id (l_xp_reward lesson) score_pct now" and
    r: "r = graded_result u (count_correct S (l_content lesson) (enumerate 0 answers) 0)
                 (int (length (l_content lesson))) (l_xp_reward lesson) score_pct now"
    by blast
  show ?thesis
    by (cases "last_practice_date u")
       (simp_all add: d' r users_graded_db assms(1) new_streak_of_def bonus_of_def
          update_streak_cases)
qed

theorem complete_lesson_streak_witness:
  "\<exists>u'. users (fst (complete_lesson ascii ex_lessons ex_db_streak2 ''u1'' ex_user_streak2 ''es''
                       ''es-basics-1'' ex_answers 8640000)) ''u1'' = Some u' \<and>
         streak u' = 3 \<and>
         streak_bonus \<lparr>correct = 4, total_items = 4, xp_earned = 21, passed = True,
                        new_level = None, streak_bonus = 6\<rparr> = min (streak u' * 2) 20"
proof -
  have h1: "users ex_db_streak2 ''u1'' = Some ex_user_streak2" by (simp add: ex_db_streak2_def)
  have h2: "snd (complete_lesson ascii ex_lessons ex_db_streak2 ''u1'' ex_user_streak2 ''es''
                   ''es-basics-1'' ex_answers 8640000) =
            Inr \<lparr>correct = 4, total_items = 4, xp_earned = 21, passed = True,
                  new_level = None, streak_bonus = 6\<rparr>"
    by code_simp
  have h3: "complete_lesson ascii ex_lessons ex_db_streak2 ''u1'' ex_user_streak2 ''es''
                   ''es-basics-1'' ex_answers 8640000 =
            (fst (complete_lesson ascii ex_lessons ex_db_streak2 ''u1'' ex_user_streak2 ''es''
                   ''es-basics-1'' ex_answers 8640000),
             Inr \<lparr>correct = 4, total_items = 4, xp_earned = 21, passed = True,
                  new_level = None, streak_bonus = 6\<rparr>)"
    using h2 by (simp add: prod_eq_iff)
  have lp: "last_practice_date ex_user_streak2 = Some 99" "streak ex_user_streak2 = 2"
    "date_of 8640000 = 100"
    by (simp_all add: ex_user_streak2_def new_user_def date_of_def)
  from complete_lesson_streak [OF h1 h3] show ?thesis by (simp add: lp)
qed


section \<open>Experience points\<close>

text \<open>
  Claim C4. The XP a graded completion earns is the base plus the streak bonus, where the
  base is the full \<^verbatim>\<open>xp_reward\<close> of the lesson if the submission passed and
  \<^verbatim>\<open>xp_reward // 2\<close> otherwise; the stored xp afterwards is the xp before plus the XP
  earned. Hence, for a catalogue whose rewards are not negative and a user whose streak is
  not negative, along any sequence of completions (by any users) the user's xp after a
  prefix of the sequence is at most the xp after a longer prefix.
\<close>

theorem complete_lesson_xp:
  assumes "users d uid = Some u"
  shows "(\<forall>lesson d' r.
            find (\<lambda>l. l_id l = lesson_id) (lessons_of sample_lessons language_code) = Some lesson \<longrightarrow>
            complete_lesson S sample_lessons d uid u language_code lesson_id answers now = (d', Inr r) \<longrightarrow>
            xp_earned r = (if passed r then l_xp_reward lesson else l_xp_reward lesson div 2)
                            + streak_bonus r \<and>
            (\<exists>u'. users d' uid = Some u' \<and> xp u' = xp u + xp_earned r)) \<and>
         ((\<forall>lang. \<forall>l \<in> set (lessons_of sample_lessons lang). 0 \<le> l_xp_reward l) \<longrightarrow>
          0 \<le> streak u \<longrightarrow>
          (\<forall>reqs1 reqs2. \<exists>u1 u2.
              users (run_completions S sample_lessons d reqs1) uid = Some u1 \<and>
              users (run_completions S sample_lessons d (reqs1 @ reqs2)) uid = Some u2 \<and>
              xp u1 \<le> xp u2))"
proof (intro conjI allI impI)
  fix lesson d' r
  assume found: "find (\<lambda>l. l_id l = lesson_id) (lessons_of sample_lessons language_code) = Some lesson"
    and ok: "complete_lesson S sample_lessons d uid u language_code lesson_id answers now = (d', Inr r)"
  from complete_lesson_InrD [OF ok] found obtain score_pct where
    d': "d' = graded_db d uid u language_code lesson_id (l_xp_reward lesson) score_pct now" and
    r: "r = graded_result u (count_correct S (l_content lesson) (enumerate 0 answers) 0)
                 (int (length (l_content lesson))) (l_xp_reward lesson) score_pct now"
    by auto
  show "xp_earned r = (if passed r then l_xp_reward lesson else l_xp_reward lesson div 2)
                            + streak_bonus r"
    by (simp add: r earned_of_def)
  show "\<exists>u'. users d' uid = Some u' \<and> xp u' = xp u + xp_earned r"
    by (simp add: d' r users_graded_db assms)
next
  fix reqs1 reqs2
  assume rewards: "\<forall>lang. \<forall>l \<in> set (lessons_of sample_lessons lang). 0 \<le> l_xp_reward l"
    and st: "0 \<le> streak u"
  from run_completions_xp_mono [OF rewards assms st, where S = S and reqs = reqs1] obtain u1 where
    u1: "users (run_completions S sample_lessons d reqs1) uid = Some u1" "0 \<le> streak u1"
    by blast
  from run_completions_xp_mono [OF rewards u1, where S = S and reqs = reqs2] obtain u2 where
    "users (run_completions S sample_lessons (run_completions S sample_lessons d reqs1) reqs2) uid = Some u2"
    "xp u1 \<le> xp u2"
    by blast
  with u1(1) show "\<exists>u1 u2.
              users (run_completions S sample_lessons d reqs1) uid = Some u1 \<and>
              users (run_completions S sample_lessons d (reqs1 @ reqs2)) uid = Some u2 \<and>
              xp u1 \<le> xp u2"
    by (simp add: run_completions_append)
qed

theorem complete_lesson_xp_witness:
  "xp_earned \<lparr>correct = 4, total_items = 4, xp_earned = 15, passed = True,
                new_level = None, streak_bonus = 0\<rparr> = 15 + 0 \<and>
   (\<exists>u'. users ex_db_passed ''u1'' = Some u' \<and> xp u' = 0 + 15) \<and>
   (\<exists>u1 u2.
      users (run_completions ascii ex_lessons ex_db
               [(''u1'', ''es'', ''es-basics-1'', ex_answers, 8640000)]) ''u1'' = Some u1 \<and>
      users (run_completions ascii ex_lessons ex_db
               ([(''u1'', ''es'', ''es-basics-1'', ex_answers, 8640000)] @
                [(''u1'', ''es'', ''es-basics-2'', [], 8726400)])) ''u1'' = Some u2 \<and>
      xp u1 \<le> xp u2)"
proof -
  have h1: "users ex_db ''u1'' = Some new_user" by (simp add: ex_db_def register_def)
  have hf: "find (\<lambda>l. l_id l = ''es-basics-1'') (lessons_of ex_lessons ''es'') = Some ex_lesson1"
    by (simp add: lessons_of_ex_lessons ex_lesson1_def)
  have h2: "snd (complete_lesson ascii ex_lessons ex_db ''u1'' new_user ''es''
                   ''es-basics-1'' ex_answers 8640000) =
            Inr \<lparr>correct = 4, total_items = 4, xp_earned = 15, passed = True,
                  new_level = None, streak_bonus = 0\<rparr>"
    by code_simp
  have h3: "complete_lesson ascii ex_lessons ex_db ''u1'' new_user ''es''
                   ''es-basics-1'' ex_answers 8640000 =
            (ex_db_passed,
             Inr \<lparr>correct = 4, total_items = 4, xp_earned = 15, passed = True,
                  new_level = None, streak_bonus = 0\<rparr>)"
    using h2 by (simp add: prod_eq_iff ex_db_passed_def)
  have hr: "\<forall>lang. \<forall>l \<in> set (lessons_of ex_lessons lang). 0 \<le> l_xp_reward l"
    by (simp add: lessons_of_ex_lessons ex_lesson1_def ex_lesson2_def)
  have hs: "0 \<le> streak new_user" "xp new_user = 0" by (simp_all add: new_user_def)
  have hx: "l_xp_reward ex_lesson1 = 15" by (simp add: ex_lesson1_def)
  note T = complete_lesson_xp [OF h1, where lesson_id = "''es-basics-1''" and sample_lessons = ex_lessons
      and language_code = "''es''" and S = ascii and answers = ex_answers and now = 8640000]
  have a: "xp_earned \<lparr>correct = 4, total_items = 4, xp_earned = 15, passed = True,
                new_level = None, streak_bonus = 0\<rparr> =
        (if passed \<lparr>correct = 4, total_items = 4, xp_earned = 15, passed = True,
                new_level = None, streak_bonus = 0\<rparr>
         then l_xp_reward ex_lesson1 else l_xp_reward ex_lesson1 div 2) +
        streak_bonus \<lparr>correct = 4, total_items = 4, xp_earned = 15, passed = True,
                new_level = None, streak_bonus = 0\<rparr> \<and>
      (\<exists>u'. users ex_db_passed ''u1'' = Some u' \<and>
         xp u' = xp new_user + xp_earned \<lparr>correct = 4, total_items = 4, xp_earned = 15,
                passed = True, new_level = None, streak_bonus = 0\<rparr>)"
    by (rule T [THEN conjunct1, rule_format, OF hf h3])
  have b: "\<exists>u1 u2.
      users (run_completions ascii ex_lessons ex_db
               [(''u1'', ''es'', ''es-basics-1'', ex_answers, 8640000)]) ''u1'' = Some u1 \<and>
      users (run_completions ascii ex_lessons ex_db
               ([(''u1'', ''es'', ''es-basics-1'', ex_answers, 8640000)] @
                [(''u1'', ''es'', ''es-basics-2'', [], 8726400)])) ''u1'' = Some u2 \<and>
      xp u1 \<le> xp u2"
    by (rule T [THEN conjunct2, THEN mp, THEN mp, THEN spec, THEN spec, OF hr hs(1)])
  from a b show ?thesis by (simp add: hx hs del: run_completions.simps)
qed


section \<open>The completion record holds the latest attempt\<close>

text \<open>
  Claim C10. After a graded submission the stored completion record of that user and lesson
  has \<^verbatim>\<open>completed\<close> equal to \<^verbatim>\<open>passed\<close> of this submission and \<^verbatim>\<open>score\<close> equal to its
  score percentage, whatever the record held before. So a failed re-attempt of a passed
  lesson sets \<^verbatim>\<open>completed\<close> back to false, and this can lock a lesson of the next order
  that was unlocked: in the example, after the user passes the lesson of order 1 the lesson
  of order 2 is unlocked, and after the same user fails the lesson of order 1 it is locked.
\<close>

theorem completion_record_latest_attempt:
  assumes "complete_lesson S sample_lessons d uid u language_code lesson_id answers now = (d', Inr r)"
  shows "(\<exists>p. find (\<lambda>p. p_user_id p = uid \<and> p_lesson_id p = lesson_id) (progress d') = Some p \<and>
            p_completed p = passed r \<and> score_percent (correct r) (total_items r) = Inr (p_score p)) \<and>
         (map p_completed (progress ex_db_passed) = [True] \<and>
          users ex_db_passed ''u1'' = Some ex_user_passed \<and>
          map d_locked (get_lessons ex_lessons ex_db_passed ''u1'' ''es'') = [False, False] \<and>
          map p_completed (progress ex_db_failed) = [False] \<and>
          map d_locked (get_lessons ex_lessons ex_db_failed ''u1'' ''es'') = [False, True])"
proof
  show "\<exists>p. find (\<lambda>p. p_user_id p = uid \<and> p_lesson_id p = lesson_id) (progress d') = Some p \<and>
            p_completed p = passed r \<and> score_percent (correct r) (total_items r) = Inr (p_score p)"
    by (rule stored_record_of_attempt [OF assms])
  show "map p_completed (progress ex_db_passed) = [True] \<and>
          users ex_db_passed ''u1'' = Some ex_user_passed \<and>
          map d_locked (get_lessons ex_lessons ex_db_passed ''u1'' ''es'') = [False, False] \<and>
          map p_completed (progress ex_db_failed) = [False] \<and>
          map d_locked (get_lessons ex_lessons ex_db_failed ''u1'' ''es'') = [False, True]"
    by code_simp
qed

theorem completion_record_latest_attempt_witness:
  "\<exists>p. find (\<lambda>p. p_user_id p = ''u1'' \<and> p_lesson_id p = ''es-basics-1'') (progress ex_db_failed) = Some p \<and>
       p_completed p = False \<and> p_score p = 0"
proof -
  have h2: "snd (complete_lesson ascii ex_lessons ex_db_passed ''u1'' ex_user_passed ''es''
                         ''es-basics-1'' [] 8640000) =
            Inr \<lparr>correct = 0, total_items = 4, xp_earned = 7, passed = False,
                  new_level = None, streak_bonus = 0\<rparr>"
    by code_simp
  have h3: "complete_lesson ascii ex_lessons ex_db_passed ''u1'' ex_user_passed ''es''
                         ''es-basics-1'' [] 8640000 =
            (ex_db_failed,
             Inr \<lparr>correct = 0, total_items = 4, xp_earned = 7, passed = False,
                  new_level = None, streak_bonus = 0\<rparr>)"
    using h2 by (simp add: prod_eq_iff ex_db_failed_def)
  have sc: "score_percent 0 4 = Inr 0" by code_simp
  from completion_record_latest_attempt [OF h3] show ?thesis by (simp add: sc)
qed

end
